theory Spec2Isabelle
  imports Main
begin

section \<open>Setup\_custom.py: the dependency description of the repository\<close>

subsection \<open>The framework's records\<close>

text \<open>
  Modelled from the spec: the classes \<^verbatim>\<open>Dependency\<close> and \<^verbatim>\<open>Configuration\<close> come
  from the wildcard import of \<^verbatim>\<open>RepositoryBootstrap.SetupAndActivate.Configuration\<close>,
  which is not part of this repository. The spec gives their constructors: a Dependency takes
  (id, name, sub-configuration, url) and a Configuration takes (description, list of
  dependency records).
\<close>

datatype dependency =
  Dependency (dep_id: string) (dep_name: string) (dep_configuration: string) (dep_url: string)

datatype configuration =
  Configuration (description: string) (dependencies: "dependency list")

text \<open>
  Modelled from the spec: \<^verbatim>\<open>CurrentShell\<close> is the framework's platform description; the
  code reads its category name and its architecture name. The record is extensible, so that
  a shell may carry any further state.
\<close>

record shell =
  CategoryName :: string
  Architecture :: string

subsection \<open>An insertion-ordered dictionary\<close>

text \<open>
  \<^verbatim>\<open>OrderedDict\<close> as an association list in insertion order. \<^verbatim>\<open>d[k] = v\<close> replaces
  the value of a key that is present, where it stands, and appends a new key at the end.
\<close>

type_synonym ('k, 'v) ordered_dict = "('k \<times> 'v) list"

fun setitem :: "'k \<Rightarrow> 'v \<Rightarrow> ('k, 'v) ordered_dict \<Rightarrow> ('k, 'v) ordered_dict" where
  "setitem k v [] = [(k, v)]"
| "setitem k v ((k', v') # rest) =
     (if k' = k then (k', v) # rest else (k', v') # setitem k v rest)"

definition keys :: "('k, 'v) ordered_dict \<Rightarrow> 'k list" where
  "keys d = map fst d"

fun getitem :: "('k, 'v) ordered_dict \<Rightarrow> 'k \<Rightarrow> 'v option" where
  "getitem [] k = None"
| "getitem ((k', v') # rest) k = (if k' = k then Some v' else getitem rest k)"

subsection \<open>GetDependencies\<close>

text \<open>The two branches on \<^verbatim>\<open>CurrentShell.CategoryName == "Windows"\<close>.\<close>

definition architectures :: "'a shell_scheme \<Rightarrow> string list" where
  "architectures CurrentShell =
     (if CategoryName CurrentShell = ''Windows'' then [''x64'', ''x86'']
      else [Architecture CurrentShell])"

definition compiler_infos :: "'a shell_scheme \<Rightarrow> (string \<times> string option) list" where
  "compiler_infos CurrentShell =
     (if CategoryName CurrentShell = ''Windows''
      then [(''MSVC_2019'', None), (''Clang_10'', Some ''_ex'')]
      else [(''Clang_10'', Some ''_ex'')])"

text \<open>\<^verbatim>\<open>architecture_configuration_suffix or ""\<close>: None and the empty string give "".\<close>

definition or_empty :: "string option \<Rightarrow> string" where
  "or_empty s = (case s of None \<Rightarrow> '''' | Some t \<Rightarrow> (if t = '''' then '''' else t))"

definition boost_name :: "string \<Rightarrow> string" where
  "boost_name boost_version = ''Common_cpp_boost_'' @ boost_version"

definition boost_url :: "string \<Rightarrow> string" where
  "boost_url boost_version =
     ''https://github.com/davidbrownell/Common_cpp_boost_'' @ boost_version @ ''.git''"

definition helpers_dependency :: dependency where
  "helpers_dependency =
     Dependency ''398F6BEC057C4FE4B724153DF4EB8AE4'' ''Common_cpp_Helpers'' ''standard''
       ''https://github.com/davidbrownell/Common_cpp_Helpers.git''"

definition base_configuration :: "string \<Rightarrow> configuration" where
  "base_configuration boost_version =
     Configuration (''boost '' @ boost_version @ '' (No compiler dependencies)'')
       [Dependency ''407DD743110A4FB1871AEF60CBEC99A0'' (boost_name boost_version) ''standard''
          (boost_url boost_version),
        helpers_dependency]"

definition this_config_name :: "string \<Rightarrow> string \<Rightarrow> string \<Rightarrow> string \<Rightarrow> string" where
  "this_config_name boost_version config_name architecture suffix =
     boost_version @ ''_'' @ config_name @ ''_'' @ architecture @ suffix"

definition this_config_desc :: "string \<Rightarrow> string \<Rightarrow> string \<Rightarrow> string \<Rightarrow> string" where
  "this_config_desc boost_version config_name architecture suffix =
     ''boost '' @ boost_version @ '' - '' @ config_name @ '' ('' @ architecture @ suffix @ '')''"

definition boost_configuration_name :: "string \<Rightarrow> string \<Rightarrow> string \<Rightarrow> string" where
  "boost_configuration_name config_name architecture suffix =
     config_name @ ''_'' @ architecture @ suffix"

definition this_configuration :: "string \<Rightarrow> string \<Rightarrow> string \<Rightarrow> string \<Rightarrow> configuration" where
  "this_configuration boost_version config_name architecture suffix =
     Configuration (this_config_desc boost_version config_name architecture suffix)
       [Dependency ''407DD743110A4FB1871AEF60CBEC99A0'' (boost_name boost_version)
          (boost_configuration_name config_name architecture suffix) (boost_url boost_version),
        helpers_dependency]"

text \<open>The three nested loops, innermost first; each passes the dictionary on.\<close>

definition architecture_loop ::
  "string \<Rightarrow> string \<Rightarrow> string \<Rightarrow> string list \<Rightarrow>
   (string, configuration) ordered_dict \<Rightarrow> (string, configuration) ordered_dict" where
  "architecture_loop boost_version config_name suffix archs d =
     fold (\<lambda>architecture d'.
             setitem (this_config_name boost_version config_name architecture suffix)
               (this_configuration boost_version config_name architecture suffix) d')
       archs d"

definition compiler_loop ::
  "string \<Rightarrow> (string \<times> string option) list \<Rightarrow> string list \<Rightarrow>
   (string, configuration) ordered_dict \<Rightarrow> (string, configuration) ordered_dict" where
  "compiler_loop boost_version infos archs d =
     fold (\<lambda>(config_name, architecture_configuration_suffix) d'.
             architecture_loop boost_version config_name
               (or_empty architecture_configuration_suffix) archs d')
       infos d"

definition version_loop ::
  "string list \<Rightarrow> (string \<times> string option) list \<Rightarrow> string list \<Rightarrow>
   (string, configuration) ordered_dict \<Rightarrow> (string, configuration) ordered_dict" where
  "version_loop versions infos archs d =
     fold (\<lambda>boost_version d'.
             compiler_loop boost_version infos archs
               (setitem boost_version (base_configuration boost_version) d'))
       versions d"

definition GetDependencies :: "'a shell_scheme \<Rightarrow> (string, configuration) ordered_dict" where
  "GetDependencies CurrentShell =
     version_loop [''1.70.0''] (compiler_infos CurrentShell) (architectures CurrentShell) []"

subsection \<open>GetCustomActions\<close>

text \<open>
  The body is \<^verbatim>\<open>return []\<close>. The process state \<open>w\<close> is passed through, so that the
  absence of an effect is part of the model: the function returns the list of actions and
  the state it leaves.
\<close>

definition GetCustomActions :: "'d \<Rightarrow> 'v \<Rightarrow> 'c \<Rightarrow> 'w \<Rightarrow> 'action list \<times> 'w" where
  "GetCustomActions debug verbose explicit_configurations w = ([], w)"

subsection \<open>Loading the module\<close>

text \<open>
  Lines 45 and 46: \<^verbatim>\<open>fundamental_repo = os.getenv(...)\<close> and
  \<^verbatim>\<open>assert os.path.isdir(fundamental_repo), fundamental_repo\<close>. The environment is a
  map from names to values and the file system is the predicate telling which paths are
  existing directories. \<^verbatim>\<open>os.getenv\<close> gives None for a name that is not set, and
  \<^verbatim>\<open>os.path.isdir(None)\<close> raises a TypeError: it calls \<^verbatim>\<open>os.stat\<close>, which rejects
  None, and catches only OSError and ValueError.
\<close>

datatype exception = AssertionError "string option" | TypeError

definition getenv :: "(string \<rightharpoonup> string) \<Rightarrow> string \<Rightarrow> string option" where
  "getenv environ name = environ name"

fun isdir :: "(string \<Rightarrow> bool) \<Rightarrow> string option \<Rightarrow> exception + bool" where
  "isdir directories None = Inl TypeError"
| "isdir directories (Some path) = Inr (directories path)"

text \<open>
  The result of the load up to line 46: the exception that ends it, or the value of
  \<^verbatim>\<open>fundamental_repo\<close> with which the module goes on. The message of the assertion
  is the value of \<^verbatim>\<open>fundamental_repo\<close>. Assert statements are executed, as the
  interpreter does by default.
\<close>

definition load_module ::
  "(string \<rightharpoonup> string) \<Rightarrow> (string \<Rightarrow> bool) \<Rightarrow> exception + string option" where
  "load_module environ directories =
     (let fundamental_repo = getenv environ ''DEVELOPMENT_ENVIRONMENT_FUNDAMENTAL'' in
      case isdir directories fundamental_repo of
        Inl e \<Rightarrow> Inl e
      | Inr ok \<Rightarrow>
          (if ok then Inr fundamental_repo else Inl (AssertionError fundamental_repo)))"

section \<open>Properties\<close>

lemmas GetDependencies_defs =
  GetDependencies_def version_loop_def compiler_loop_def architecture_loop_def
  architectures_def compiler_infos_def or_empty_def this_config_name_def

text \<open>
  C6: for all values of debug, verbose and explicit\_configurations, GetCustomActions
  returns the empty sequence and leaves the state as it was.
\<close>

theorem GetCustomActions_empty:
  "GetCustomActions debug verbose explicit_configurations w = ([], w)"
  by (simp add: GetCustomActions_def)

subsection \<open>The returned dictionary in closed form\<close>

lemma GetDependencies_Windows:
  "CategoryName CurrentShell = ''Windows'' \<Longrightarrow>
   GetDependencies CurrentShell =
     [(''1.70.0'', base_configuration ''1.70.0''),
      (''1.70.0_MSVC_2019_x64'', this_configuration ''1.70.0'' ''MSVC_2019'' ''x64'' ''''),
      (''1.70.0_MSVC_2019_x86'', this_configuration ''1.70.0'' ''MSVC_2019'' ''x86'' ''''),
      (''1.70.0_Clang_10_x64_ex'', this_configuration ''1.70.0'' ''Clang_10'' ''x64'' ''_ex''),
      (''1.70.0_Clang_10_x86_ex'', this_configuration ''1.70.0'' ''Clang_10'' ''x86'' ''_ex'')]"
  by (simp add: GetDependencies_defs)

lemma GetDependencies_elsewhere:
  "CategoryName CurrentShell \<noteq> ''Windows'' \<Longrightarrow>
   GetDependencies CurrentShell =
     [(''1.70.0'', base_configuration ''1.70.0''),
      (''1.70.0_Clang_10_'' @ Architecture CurrentShell @ ''_ex'',
       this_configuration ''1.70.0'' ''Clang_10'' (Architecture CurrentShell) ''_ex'')]"
  by (simp add: GetDependencies_defs)

subsection \<open>The configuration names\<close>

text \<open>
  C1: when the category is "Windows", the keys of the returned dictionary are, in this
  order, the version, then the x64 and the x86 variant of MSVC\_2019, then the x64 and the
  x86 variant of Clang\_10 with the suffix \_ex; the detected architecture plays no part.
\<close>

theorem GetDependencies_Windows_keys:
  "CategoryName CurrentShell = ''Windows'' \<Longrightarrow>
   keys (GetDependencies CurrentShell) =
     [''1.70.0'', ''1.70.0_MSVC_2019_x64'', ''1.70.0_MSVC_2019_x86'',
      ''1.70.0_Clang_10_x64_ex'', ''1.70.0_Clang_10_x86_ex'']"
  by (simp add: GetDependencies_Windows keys_def)

theorem GetDependencies_Windows_keys_witness:
  "CategoryName \<lparr>CategoryName = ''Windows'', Architecture = ''ARM64''\<rparr> = ''Windows'' \<and>
   keys (GetDependencies \<lparr>CategoryName = ''Windows'', Architecture = ''ARM64''\<rparr>) =
     [''1.70.0'', ''1.70.0_MSVC_2019_x64'', ''1.70.0_MSVC_2019_x86'',
      ''1.70.0_Clang_10_x64_ex'', ''1.70.0_Clang_10_x86_ex'']"
  using GetDependencies_Windows_keys
    [of "\<lparr>CategoryName = ''Windows'', Architecture = ''ARM64''\<rparr>"]
  by simp

text \<open>
  C2: when the category is not "Windows", the only compiler pair is (Clang\_10, \_ex) and
  the only architecture is the detected one, so the keys are the version followed by one
  name per compiler pair, built with the detected architecture: "1.70.0" and
  "1.70.0\_Clang\_10\_<architecture>\_ex".
\<close>

theorem GetDependencies_elsewhere_keys:
  "CategoryName CurrentShell \<noteq> ''Windows'' \<Longrightarrow>
   compiler_infos CurrentShell = [(''Clang_10'', Some ''_ex'')] \<and>
   architectures CurrentShell = [Architecture CurrentShell] \<and>
   keys (GetDependencies CurrentShell) =
     ''1.70.0'' # map (\<lambda>(config_name, suffix).
        this_config_name ''1.70.0'' config_name (Architecture CurrentShell) (or_empty suffix))
        (compiler_infos CurrentShell) \<and>
   keys (GetDependencies CurrentShell) =
     [''1.70.0'', ''1.70.0_Clang_10_'' @ Architecture CurrentShell @ ''_ex'']"
  by (simp add: GetDependencies_elsewhere keys_def compiler_infos_def architectures_def
      this_config_name_def or_empty_def)

theorem GetDependencies_elsewhere_keys_witness:
  "CategoryName \<lparr>CategoryName = ''Linux'', Architecture = ''x64''\<rparr> \<noteq> ''Windows'' \<and>
   keys (GetDependencies \<lparr>CategoryName = ''Linux'', Architecture = ''x64''\<rparr>) =
     [''1.70.0'', ''1.70.0_Clang_10_x64_ex'']"
  using GetDependencies_elsewhere_keys
    [of "\<lparr>CategoryName = ''Linux'', Architecture = ''x64''\<rparr>"]
  by (simp add: compiler_infos_def this_config_name_def or_empty_def)

text \<open>
  C7: on every platform the keys of the returned dictionary are the version followed by
  one name for each compiler pair and architecture, in the order of the loops, and they are
  pairwise different: no generated name is the version alone, and two of the platform's
  (compiler, architecture, suffix) combinations with the same name are the same combination.
\<close>

theorem configuration_names_unique:
  "keys (GetDependencies CurrentShell) =
     ''1.70.0'' #
       concat (map (\<lambda>(config_name, suffix).
                 map (\<lambda>architecture.
                        this_config_name ''1.70.0'' config_name architecture (or_empty suffix))
                   (architectures CurrentShell))
               (compiler_infos CurrentShell)) \<and>
   distinct (keys (GetDependencies CurrentShell)) \<and>
   (\<forall>(config_name, suffix) \<in> set (compiler_infos CurrentShell).
    \<forall>architecture \<in> set (architectures CurrentShell).
      this_config_name ''1.70.0'' config_name architecture (or_empty suffix) \<noteq> ''1.70.0'' \<and>
      (\<forall>(config_name', suffix') \<in> set (compiler_infos CurrentShell).
       \<forall>architecture' \<in> set (architectures CurrentShell).
         this_config_name ''1.70.0'' config_name architecture (or_empty suffix) =
         this_config_name ''1.70.0'' config_name' architecture' (or_empty suffix') \<longrightarrow>
         config_name = config_name' \<and> architecture = architecture' \<and> suffix = suffix'))"
proof (cases "CategoryName CurrentShell = ''Windows''")
  case True
  then show ?thesis
    by (simp add: GetDependencies_Windows keys_def compiler_infos_def architectures_def
        this_config_name_def or_empty_def)
next
  case False
  then show ?thesis
    by (simp add: GetDependencies_elsewhere keys_def compiler_infos_def architectures_def
        this_config_name_def or_empty_def)
qed

theorem configuration_names_unique_witness:
  "distinct (keys (GetDependencies \<lparr>CategoryName = ''Windows'', Architecture = ''x64''\<rparr>)) \<and>
   (''MSVC_2019'', None) \<in> set (compiler_infos \<lparr>CategoryName = ''Windows'', Architecture = ''x64''\<rparr>) \<and>
   (''Clang_10'', Some ''_ex'') \<in> set (compiler_infos \<lparr>CategoryName = ''Windows'', Architecture = ''x64''\<rparr>) \<and>
   ''x86'' \<in> set (architectures \<lparr>CategoryName = ''Windows'', Architecture = ''x64''\<rparr>) \<and>
   this_config_name ''1.70.0'' ''MSVC_2019'' ''x86'' (or_empty None) \<noteq> ''1.70.0'' \<and>
   this_config_name ''1.70.0'' ''MSVC_2019'' ''x86'' (or_empty None) \<noteq>
     this_config_name ''1.70.0'' ''Clang_10'' ''x86'' (or_empty (Some ''_ex''))"
  using configuration_names_unique
    [of "\<lparr>CategoryName = ''Windows'', Architecture = ''x64''\<rparr>"]
  by (simp add: compiler_infos_def architectures_def this_config_name_def or_empty_def)

subsection \<open>The dependencies of the configurations\<close>

text \<open>
  C5: on every platform the configuration stored under the version "1.70.0" alone has two
  dependencies, one on each upstream repository, and both name the sub-configuration
  "standard".
\<close>

theorem base_configuration_standard:
  "\<exists>desc d1 d2.
     getitem (GetDependencies CurrentShell) ''1.70.0'' = Some (Configuration desc [d1, d2]) \<and>
     dep_name d1 = ''Common_cpp_boost_1.70.0'' \<and> dep_configuration d1 = ''standard'' \<and>
     dep_name d2 = ''Common_cpp_Helpers'' \<and> dep_configuration d2 = ''standard''"
proof (cases "CategoryName CurrentShell = ''Windows''")
  case True
  then show ?thesis
    by (simp add: GetDependencies_Windows base_configuration_def helpers_dependency_def
        boost_name_def)
next
  case False
  then show ?thesis
    by (simp add: GetDependencies_elsewhere base_configuration_def helpers_dependency_def
        boost_name_def)
qed

text \<open>
  C4: on every platform, every configuration of the returned dictionary other than the base
  one belongs to a compiler pair and an architecture of the platform; its first dependency
  is on Common\_cpp\_boost\_1.70.0 with the sub-configuration
  <compiler>\_<architecture><suffix> (the suffix empty when the pair has None) and its second
  is on Common\_cpp\_Helpers with the sub-configuration "standard". Every compiler pair and
  architecture of the platform has such a configuration in the dictionary.
\<close>

theorem specific_configuration_dependencies:
  "(\<forall>(k, cfg) \<in> set (GetDependencies CurrentShell). k \<noteq> ''1.70.0'' \<longrightarrow>
      (\<exists>config_name suffix architecture desc url1 url2.
         (config_name, suffix) \<in> set (compiler_infos CurrentShell) \<and>
         architecture \<in> set (architectures CurrentShell) \<and>
         k = ''1.70.0_'' @ config_name @ ''_'' @ architecture @
               (case suffix of None \<Rightarrow> '''' | Some s \<Rightarrow> s) \<and>
         cfg = Configuration desc
           [Dependency ''407DD743110A4FB1871AEF60CBEC99A0'' ''Common_cpp_boost_1.70.0''
              (config_name @ ''_'' @ architecture @ (case suffix of None \<Rightarrow> '''' | Some s \<Rightarrow> s))
              url1,
            Dependency ''398F6BEC057C4FE4B724153DF4EB8AE4'' ''Common_cpp_Helpers''
              ''standard'' url2])) \<and>
   (\<forall>(config_name, suffix) \<in> set (compiler_infos CurrentShell).
      \<forall>architecture \<in> set (architectures CurrentShell).
        \<exists>desc url1 url2.
          getitem (GetDependencies CurrentShell)
            (''1.70.0_'' @ config_name @ ''_'' @ architecture @
               (case suffix of None \<Rightarrow> '''' | Some s \<Rightarrow> s)) =
          Some (Configuration desc
           [Dependency ''407DD743110A4FB1871AEF60CBEC99A0'' ''Common_cpp_boost_1.70.0''
              (config_name @ ''_'' @ architecture @ (case suffix of None \<Rightarrow> '''' | Some s \<Rightarrow> s))
              url1,
            Dependency ''398F6BEC057C4FE4B724153DF4EB8AE4'' ''Common_cpp_Helpers''
              ''standard'' url2]))"
proof (cases "CategoryName CurrentShell = ''Windows''")
  case True
  then show ?thesis
    by (simp add: GetDependencies_Windows compiler_infos_def architectures_def
        this_configuration_def helpers_dependency_def boost_name_def
        boost_configuration_name_def conj_disj_distribR ex_disj_distrib)
next
  case False
  then show ?thesis
    by (simp add: GetDependencies_elsewhere compiler_infos_def architectures_def
        this_configuration_def helpers_dependency_def boost_name_def
        boost_configuration_name_def)
qed

theorem specific_configuration_dependencies_witness:
  "(''1.70.0_Clang_10_x64_ex'',
    Configuration ''boost 1.70.0 - Clang_10 (x64_ex)''
      [Dependency ''407DD743110A4FB1871AEF60CBEC99A0'' ''Common_cpp_boost_1.70.0''
         ''Clang_10_x64_ex'' ''https://github.com/davidbrownell/Common_cpp_boost_1.70.0.git'',
       Dependency ''398F6BEC057C4FE4B724153DF4EB8AE4'' ''Common_cpp_Helpers'' ''standard''
         ''https://github.com/davidbrownell/Common_cpp_Helpers.git''])
     \<in> set (GetDependencies \<lparr>CategoryName = ''Linux'', Architecture = ''x64''\<rparr>) \<and>
   ''1.70.0_Clang_10_x64_ex'' \<noteq> ''1.70.0'' \<and>
   (''Clang_10'', Some ''_ex'') \<in> set (compiler_infos \<lparr>CategoryName = ''Linux'', Architecture = ''x64''\<rparr>) \<and>
   ''x64'' \<in> set (architectures \<lparr>CategoryName = ''Linux'', Architecture = ''x64''\<rparr>) \<and>
   (\<exists>desc url1 url2.
      getitem (GetDependencies \<lparr>CategoryName = ''Linux'', Architecture = ''x64''\<rparr>)
        ''1.70.0_Clang_10_x64_ex'' =
      Some (Configuration desc
        [Dependency ''407DD743110A4FB1871AEF60CBEC99A0'' ''Common_cpp_boost_1.70.0''
           ''Clang_10_x64_ex'' url1,
         Dependency ''398F6BEC057C4FE4B724153DF4EB8AE4'' ''Common_cpp_Helpers''
           ''standard'' url2]))"
  using specific_configuration_dependencies
    [of "\<lparr>CategoryName = ''Linux'', Architecture = ''x64''\<rparr>"]
  by (simp add: GetDependencies_elsewhere compiler_infos_def architectures_def
        this_configuration_def helpers_dependency_def boost_name_def boost_url_def
        boost_configuration_name_def this_config_desc_def)

text \<open>
  C8: in every configuration of the returned dictionary each dependency pairs the identifier
  407DD743110A4FB1871AEF60CBEC99A0 with the name Common\_cpp\_boost\_1.70.0 or the identifier
  398F6BEC057C4FE4B724153DF4EB8AE4 with the name Common\_cpp\_Helpers, and two configurations
  of the dictionary have the same dependencies up to the sub-configuration field.
\<close>

theorem dependency_identity_stable:
  "(\<forall>(k, cfg) \<in> set (GetDependencies CurrentShell).
      \<forall>dep \<in> set (dependencies cfg).
        (dep_id dep = ''407DD743110A4FB1871AEF60CBEC99A0'' \<and>
         dep_name dep = ''Common_cpp_boost_1.70.0'') \<or>
        (dep_id dep = ''398F6BEC057C4FE4B724153DF4EB8AE4'' \<and>
         dep_name dep = ''Common_cpp_Helpers'')) \<and>
   (\<forall>(k, cfg) \<in> set (GetDependencies CurrentShell).
    \<forall>(k', cfg') \<in> set (GetDependencies CurrentShell).
      map (\<lambda>dep. (dep_id dep, dep_name dep, dep_url dep)) (dependencies cfg) =
      map (\<lambda>dep. (dep_id dep, dep_name dep, dep_url dep)) (dependencies cfg'))"
proof (cases "CategoryName CurrentShell = ''Windows''")
  case True
  then show ?thesis
    by (simp add: GetDependencies_Windows this_configuration_def base_configuration_def
        helpers_dependency_def boost_name_def)
next
  case False
  then show ?thesis
    by (simp add: GetDependencies_elsewhere this_configuration_def base_configuration_def
        helpers_dependency_def boost_name_def)
qed

theorem dependency_identity_stable_witness:
  "(''1.70.0_Clang_10_x64_ex'',
    this_configuration ''1.70.0'' ''Clang_10'' ''x64'' ''_ex'')
     \<in> set (GetDependencies \<lparr>CategoryName = ''Linux'', Architecture = ''x64''\<rparr>) \<and>
   (''1.70.0'', base_configuration ''1.70.0'')
     \<in> set (GetDependencies \<lparr>CategoryName = ''Linux'', Architecture = ''x64''\<rparr>) \<and>
   map (\<lambda>dep. (dep_id dep, dep_name dep, dep_url dep))
     (dependencies (this_configuration ''1.70.0'' ''Clang_10'' ''x64'' ''_ex'')) =
   map (\<lambda>dep. (dep_id dep, dep_name dep, dep_url dep))
     (dependencies (base_configuration ''1.70.0''))"
proof -
  let ?sh = "\<lparr>CategoryName = ''Linux'', Architecture = ''x64''\<rparr>"
  have specific:
    "(''1.70.0_Clang_10_x64_ex'', this_configuration ''1.70.0'' ''Clang_10'' ''x64'' ''_ex'')
       \<in> set (GetDependencies ?sh)"
    by (simp add: GetDependencies_elsewhere)
  have base: "(''1.70.0'', base_configuration ''1.70.0'') \<in> set (GetDependencies ?sh)"
    by (simp add: GetDependencies_elsewhere)
  from dependency_identity_stable [of ?sh] specific base
  have "map (\<lambda>dep. (dep_id dep, dep_name dep, dep_url dep))
          (dependencies (this_configuration ''1.70.0'' ''Clang_10'' ''x64'' ''_ex'')) =
        map (\<lambda>dep. (dep_id dep, dep_name dep, dep_url dep))
          (dependencies (base_configuration ''1.70.0''))"
    by blast
  with specific base show ?thesis by blast
qed

text \<open>
  C10: every configuration of the returned dictionary, the base one included, has exactly
  two dependencies: first Common\_cpp\_boost\_1.70.0, then Common\_cpp\_Helpers, each with its
  fixed identifier and its fixed source URL.
\<close>

theorem dependency_lists_fixed:
  "\<forall>(k, cfg) \<in> set (GetDependencies CurrentShell).
     \<exists>c1 c2. dependencies cfg =
       [Dependency ''407DD743110A4FB1871AEF60CBEC99A0'' ''Common_cpp_boost_1.70.0'' c1
          ''https://github.com/davidbrownell/Common_cpp_boost_1.70.0.git'',
        Dependency ''398F6BEC057C4FE4B724153DF4EB8AE4'' ''Common_cpp_Helpers'' c2
          ''https://github.com/davidbrownell/Common_cpp_Helpers.git'']"
proof (cases "CategoryName CurrentShell = ''Windows''")
  case True
  then show ?thesis
    by (simp add: GetDependencies_Windows this_configuration_def base_configuration_def
        helpers_dependency_def boost_name_def boost_url_def)
next
  case False
  then show ?thesis
    by (simp add: GetDependencies_elsewhere this_configuration_def base_configuration_def
        helpers_dependency_def boost_name_def boost_url_def)
qed

theorem dependency_lists_fixed_witness:
  "(''1.70.0_MSVC_2019_x86'', this_configuration ''1.70.0'' ''MSVC_2019'' ''x86'' '''')
     \<in> set (GetDependencies \<lparr>CategoryName = ''Windows'', Architecture = ''x64''\<rparr>) \<and>
   (\<exists>c1 c2. dependencies (this_configuration ''1.70.0'' ''MSVC_2019'' ''x86'' '''') =
     [Dependency ''407DD743110A4FB1871AEF60CBEC99A0'' ''Common_cpp_boost_1.70.0'' c1
        ''https://github.com/davidbrownell/Common_cpp_boost_1.70.0.git'',
      Dependency ''398F6BEC057C4FE4B724153DF4EB8AE4'' ''Common_cpp_Helpers'' c2
        ''https://github.com/davidbrownell/Common_cpp_Helpers.git''])"
proof -
  let ?sh = "\<lparr>CategoryName = ''Windows'', Architecture = ''x64''\<rparr>"
  have member:
    "(''1.70.0_MSVC_2019_x86'', this_configuration ''1.70.0'' ''MSVC_2019'' ''x86'' '''')
       \<in> set (GetDependencies ?sh)"
    by (simp add: GetDependencies_Windows)
  with dependency_lists_fixed [of ?sh] show ?thesis by blast
qed

subsection \<open>Determinism\<close>

text \<open>
  C9: the returned dictionary is a function of the category name and the architecture of
  the shell: two shells that agree on both, whatever else they hold, give the same
  dictionary, with the same keys in the same order, the same descriptions and the same
  dependency records.
\<close>

theorem GetDependencies_deterministic:
  "CategoryName sh = CategoryName sh' \<Longrightarrow> Architecture sh = Architecture sh' \<Longrightarrow>
   GetDependencies sh = GetDependencies sh'"
  by (simp add: GetDependencies_def compiler_infos_def architectures_def)

theorem GetDependencies_deterministic_witness:
  "CategoryName \<lparr>CategoryName = ''Linux'', Architecture = ''x64'', \<dots> = (1::nat)\<rparr> =
     CategoryName \<lparr>CategoryName = ''Linux'', Architecture = ''x64'', \<dots> = True\<rparr> \<and>
   Architecture \<lparr>CategoryName = ''Linux'', Architecture = ''x64'', \<dots> = (1::nat)\<rparr> =
     Architecture \<lparr>CategoryName = ''Linux'', Architecture = ''x64'', \<dots> = True\<rparr> \<and>
   GetDependencies \<lparr>CategoryName = ''Linux'', Architecture = ''x64'', \<dots> = (1::nat)\<rparr> =
     GetDependencies \<lparr>CategoryName = ''Linux'', Architecture = ''x64'', \<dots> = True\<rparr>"
  using GetDependencies_deterministic
    [of "\<lparr>CategoryName = ''Linux'', Architecture = ''x64'', \<dots> = (1::nat)\<rparr>"
        "\<lparr>CategoryName = ''Linux'', Architecture = ''x64'', \<dots> = True\<rparr>"]
  by simp

subsection \<open>The check at load time\<close>

text \<open>
  When the variable names an existing directory the load goes on with that path; when it
  is set to anything else the assertion fails with the path as its message.
\<close>

lemma load_module_directory:
  "environ ''DEVELOPMENT_ENVIRONMENT_FUNDAMENTAL'' = Some path \<Longrightarrow> directories path \<Longrightarrow>
   load_module environ directories = Inr (Some path)"
  by (simp add: load_module_def getenv_def)

lemma load_module_not_a_directory:
  "environ ''DEVELOPMENT_ENVIRONMENT_FUNDAMENTAL'' = Some path \<Longrightarrow> \<not> directories path \<Longrightarrow>
   load_module environ directories = Inl (AssertionError (Some path))"
  by (simp add: load_module_def getenv_def)

text \<open>
  C3: the claim is that the load ends in an assertion failure also when the variable is not
  set. In the empty environment, whatever the file system holds, the load ends in the
  TypeError of \<^verbatim>\<open>os.path.isdir(None)\<close>: the assertion is never evaluated to False.
\<close>

theorem load_module_unset:
  "load_module Map.empty directories = Inl TypeError"
  by (simp add: load_module_def getenv_def)

end
